theory Spec2Isabelle
  imports Complex_Main "HOL-Library.Sublist" "HOL-Library.Multiset"
begin

section \<open>Floating-point numbers\<close>

text \<open>
  The values, targets and tolerances of the program are IEEE 754 binary64 numbers (Python
  and numpy floats). A number is a finite value, an infinity or NaN. The two zeros are one
  value here: the program only adds, subtracts, multiplies, takes absolute values and
  compares, which do not tell them apart, and it never divides by a zero. Equality of two
  numbers is Python's \<^verbatim>\<open>==\<close> except on NaN, which the program compares with \<^verbatim>\<open>==\<close> only in
  the closeness test.
\<close>

datatype float64 = Fin real | PInf | NInf | NaN

text \<open>The power \<open>2\<^sup>e\<close> for an integer exponent.\<close>

definition pow2 :: "int \<Rightarrow> real" where
  "pow2 e = (if 0 \<le> e then 2 ^ nat e else 1 / 2 ^ nat (- e))"

text \<open>
  The exponent of a positive number: the largest \<open>e\<close> between \<open>-1022\<close> and \<open>1025\<close> with
  \<open>2\<^sup>e \<le> x\<close>, and \<open>-1022\<close> for the subnormal numbers below. It is found by bisection.
\<close>

definition exponent :: "real \<Rightarrow> int" where
  "exponent x =
     fold (\<lambda>s lo. if pow2 (lo + s) \<le> x then lo + s else lo)
       [1024, 512, 256, 128, 64, 32, 16, 8, 4, 2, 1] (- 1022)"

text \<open>Rounding to the nearest integer, a tie going to the even one.\<close>

definition rne :: "real \<Rightarrow> int" where
  "rne y =
     (let f = \<lfloor>y\<rfloor>; r = y - of_int f
      in if r < 1 / 2 then f else if 1 / 2 < r then f + 1 else if even f then f else f + 1)"

text \<open>
  Rounding a real number to binary64: to the nearest multiple of \<open>2\<^sup>e\<^sup>-\<^sup>5\<^sup>2\<close>, where \<open>e\<close> is the
  exponent of the number (53 significant bits, fewer for subnormal numbers), ties to even;
  a result of magnitude \<open>2\<^sup>1\<^sup>0\<^sup>2\<^sup>4\<close> or more is an infinity.
\<close>

definition round64 :: "real \<Rightarrow> float64" where
  "round64 x =
     (if x = 0 then Fin 0
      else let q = pow2 (exponent \<bar>x\<bar> - 52);
               y = of_int (rne (x / q)) * q
           in if pow2 1024 \<le> \<bar>y\<bar> then (if 0 < x then PInf else NInf) else Fin y)"

fun fneg :: "float64 \<Rightarrow> float64" where
  "fneg (Fin a) = Fin (- a)"
| "fneg PInf = NInf"
| "fneg NInf = PInf"
| "fneg NaN = NaN"

text \<open>\<^verbatim>\<open>abs(x)\<close>\<close>

fun fabs :: "float64 \<Rightarrow> float64" where
  "fabs (Fin a) = Fin \<bar>a\<bar>"
| "fabs PInf = PInf"
| "fabs NInf = PInf"
| "fabs NaN = NaN"

text \<open>\<^verbatim>\<open>x + y\<close>: the exact sum, rounded.\<close>

fun fadd :: "float64 \<Rightarrow> float64 \<Rightarrow> float64" where
  "fadd (Fin a) (Fin b) = round64 (a + b)"
| "fadd NaN y = NaN"
| "fadd x NaN = NaN"
| "fadd PInf NInf = NaN"
| "fadd NInf PInf = NaN"
| "fadd PInf y = PInf"
| "fadd x PInf = PInf"
| "fadd NInf y = NInf"
| "fadd x NInf = NInf"

text \<open>\<^verbatim>\<open>x - y\<close>\<close>

definition fsub :: "float64 \<Rightarrow> float64 \<Rightarrow> float64" where
  "fsub x y = fadd x (fneg y)"

text \<open>\<^verbatim>\<open>x * y\<close>: the exact product, rounded.\<close>

fun fmul :: "float64 \<Rightarrow> float64 \<Rightarrow> float64" where
  "fmul (Fin a) (Fin b) = round64 (a * b)"
| "fmul NaN y = NaN"
| "fmul x NaN = NaN"
| "fmul PInf (Fin b) = (if b = 0 then NaN else if 0 < b then PInf else NInf)"
| "fmul NInf (Fin b) = (if b = 0 then NaN else if 0 < b then NInf else PInf)"
| "fmul (Fin a) PInf = (if a = 0 then NaN else if 0 < a then PInf else NInf)"
| "fmul (Fin a) NInf = (if a = 0 then NaN else if 0 < a then NInf else PInf)"
| "fmul PInf PInf = PInf"
| "fmul PInf NInf = NInf"
| "fmul NInf PInf = NInf"
| "fmul NInf NInf = PInf"

text \<open>The quotient of \<^verbatim>\<open>x / y\<close> for a divisor that is not zero: the exact quotient,
  rounded.\<close>

fun fquot :: "float64 \<Rightarrow> float64 \<Rightarrow> float64" where
  "fquot (Fin a) (Fin b) = round64 (a / b)"
| "fquot NaN y = NaN"
| "fquot x NaN = NaN"
| "fquot (Fin a) PInf = Fin 0"
| "fquot (Fin a) NInf = Fin 0"
| "fquot PInf (Fin b) = (if 0 \<le> b then PInf else NInf)"
| "fquot NInf (Fin b) = (if 0 \<le> b then NInf else PInf)"
| "fquot PInf y = NaN"
| "fquot NInf y = NaN"

text \<open>\<^verbatim>\<open>x <= y\<close> and \<^verbatim>\<open>x < y\<close>: false when either side is NaN.\<close>

fun fle :: "float64 \<Rightarrow> float64 \<Rightarrow> bool" where
  "fle (Fin a) (Fin b) = (a \<le> b)"
| "fle NaN y = False"
| "fle x NaN = False"
| "fle NInf y = True"
| "fle x PInf = True"
| "fle PInf y = False"
| "fle x NInf = False"

fun flt :: "float64 \<Rightarrow> float64 \<Rightarrow> bool" where
  "flt (Fin a) (Fin b) = (a < b)"
| "flt NaN y = False"
| "flt x NaN = False"
| "flt PInf y = False"
| "flt x NInf = False"
| "flt NInf y = True"
| "flt x PInf = True"

definition is_inf :: "float64 \<Rightarrow> bool" where
  "is_inf x = (x = PInf \<or> x = NInf)"


section \<open>Data model\<close>

text \<open>
  An item is the dictionary \<^verbatim>\<open>{"value": v, "column": c, "row": r}\<close> built by the
  ingestion code, which drops the missing values (NaN) of a column.
\<close>

record item =
  val :: float64
  column :: string
  row :: int

text \<open>The exceptions the search code can raise.\<close>

datatype error = KeyError | ValueError | ZeroDivisionError | UnboundLocalError

section \<open>Library functions used by the searches\<close>

text \<open>
  \<^verbatim>\<open>itertools.combinations(values, 2)\<close> and \<^verbatim>\<open>itertools.combinations(values, 3)\<close>:
  the tuples of positions \<open>i < j\<close> (and \<open>i < j < k\<close>) in lexicographic order of positions.
\<close>

fun combinations2 :: "'a list \<Rightarrow> ('a \<times> 'a) list" where
  "combinations2 [] = []"
| "combinations2 (x # xs) = map (Pair x) xs @ combinations2 xs"

fun combinations3 :: "'a list \<Rightarrow> ('a \<times> 'a \<times> 'a) list" where
  "combinations3 [] = []"
| "combinations3 (x # xs) = map (\<lambda>(y, z). (x, y, z)) (combinations2 xs) @ combinations3 xs"

text \<open>
  \<^verbatim>\<open>math.isclose(a, b, rel_tol=t)\<close> with the default \<^verbatim>\<open>abs_tol=0.0\<close>: a negative
  tolerance raises \<^verbatim>\<open>ValueError\<close>. Otherwise equal values are close, an infinity is close
  to nothing else, and two other values are close when their distance is at most the
  magnitude of \<open>t\<close> times either one (or at most the absolute tolerance, which is zero).
\<close>

definition isclose :: "float64 \<Rightarrow> float64 \<Rightarrow> float64 \<Rightarrow> error + bool" where
  "isclose a b rel_tol =
     (if flt rel_tol (Fin 0) then Inl ValueError
      else if a = b \<and> a \<noteq> NaN then Inr True
      else if is_inf a \<or> is_inf b then Inr False
      else let diff = fabs (fsub b a)
           in Inr (fle diff (fabs (fmul rel_tol b)) \<or> fle diff (fabs (fmul rel_tol a))
                   \<or> fle diff (Fin 0)))"

text \<open>The division \<^verbatim>\<open>a / b\<close>, which raises on a zero divisor.\<close>

definition truediv :: "float64 \<Rightarrow> float64 \<Rightarrow> error + float64" where
  "truediv a b = (if b = Fin 0 then Inl ZeroDivisionError else Inr (fquot a b))"

section \<open>Reconstruction\<close>

text \<open>
  \<^verbatim>\<open>reconstruct_items(full_data, values)\<close>: one scan of the store; an item whose value
  is among the remaining wanted values is appended to the result and one occurrence of its
  value is removed (\<^verbatim>\<open>list.remove\<close>); the scan returns as soon as nothing remains and
  gives \<^verbatim>\<open>None\<close> when the store ends first.
\<close>

fun reconstruct_loop :: "item list \<Rightarrow> item list \<Rightarrow> float64 list \<Rightarrow> item list option" where
  "reconstruct_loop [] result remaining = None"
| "reconstruct_loop (it # rest) result remaining =
     (if val it \<in> set remaining then
        (let result' = result @ [it];
             remaining' = remove1 (val it) remaining
         in if remaining' = [] then Some result'
            else reconstruct_loop rest result' remaining')
      else reconstruct_loop rest result remaining)"

definition reconstruct_items :: "item list \<Rightarrow> float64 list \<Rightarrow> item list option" where
  "reconstruct_items full_data values = reconstruct_loop full_data [] values"

section \<open>Subset-sum search\<close>

text \<open>
  The dictionary \<^verbatim>\<open>dp\<close> keeps insertion order, which is the order the inner loop visits
  its keys in, so it is an association list with distinct keys; new keys go to the end.
  \<^verbatim>\<open>dp[s]\<close> raises \<^verbatim>\<open>KeyError\<close> on a missing key. A sum that is NaN is kept as one
  key; the program may keep several, and no sum derived from any of them passes the
  tolerance check.
\<close>

type_synonym dp = "(float64 \<times> item list) list"

definition dp_get :: "dp \<Rightarrow> float64 \<Rightarrow> error + item list" where
  "dp_get dp s = (case map_of dp s of None \<Rightarrow> Inl KeyError | Some l \<Rightarrow> Inr l)"

text \<open>The inner loop either returns from the function or falls through with the
  updated dictionary.\<close>

datatype sum_step = Return "item list" | Continue dp

text \<open>
  \<^verbatim>\<open>for s in list(dp.keys())\<close>: the keys are a snapshot taken before the loop, the
  membership test and the look-up read the dictionary as updated so far.
\<close>

fun sum_inner :: "item \<Rightarrow> float64 \<Rightarrow> float64 \<Rightarrow> float64 list \<Rightarrow> dp \<Rightarrow> error + sum_step" where
  "sum_inner it target tolerance [] dp = Inr (Continue dp)"
| "sum_inner it target tolerance (s # ss) dp =
     (let new_sum = fadd s (val it) in
      if fle (fabs (fsub new_sum target)) tolerance then
        (case dp_get dp s of Inl e \<Rightarrow> Inl e | Inr l \<Rightarrow> Inr (Return (l @ [it])))
      else if new_sum \<notin> set (map fst dp) then
        (case dp_get dp s of Inl e \<Rightarrow> Inl e
         | Inr l \<Rightarrow> sum_inner it target tolerance ss (dp @ [(new_sum, l @ [it])]))
      else sum_inner it target tolerance ss dp)"

fun sum_outer :: "item list \<Rightarrow> float64 \<Rightarrow> float64 \<Rightarrow> dp \<Rightarrow> error + item list option" where
  "sum_outer [] target tolerance dp = Inr None"
| "sum_outer (it # rest) target tolerance dp =
     (case sum_inner it target tolerance (map fst dp) dp of
        Inl e \<Rightarrow> Inl e
      | Inr (Return r) \<Rightarrow> Inr (Some r)
      | Inr (Continue dp') \<Rightarrow> sum_outer rest target tolerance dp')"

definition find_subset_sum :: "item list \<Rightarrow> float64 \<Rightarrow> float64 \<Rightarrow> error + item list option" where
  "find_subset_sum data target tolerance = sum_outer data target tolerance [(Fin 0, [])]"

section \<open>Pairwise-difference search\<close>

text \<open>The loop over the pairs of values; it yields the pair at which the function
  returns, if any.\<close>

fun difference_pairs ::
  "(float64 \<times> float64) list \<Rightarrow> float64 \<Rightarrow> float64 \<Rightarrow> (float64 \<times> float64) option" where
  "difference_pairs [] target tolerance = None"
| "difference_pairs ((a, b) # ps) target tolerance =
     (if fle (fabs (fsub (fabs (fsub a b)) target)) tolerance then Some (a, b)
      else difference_pairs ps target tolerance)"

definition find_subset_difference :: "item list \<Rightarrow> float64 \<Rightarrow> float64 \<Rightarrow> item list option" where
  "find_subset_difference data target tolerance =
     (let values = map val data in
      case difference_pairs (combinations2 values) target tolerance of
        Some (a, b) \<Rightarrow> reconstruct_items data [a, b]
      | None \<Rightarrow> None)"

section \<open>Product search\<close>

fun product_pairs ::
  "(float64 \<times> float64) list \<Rightarrow> float64 \<Rightarrow> float64 \<Rightarrow> (float64 \<times> float64) option" where
  "product_pairs [] target tolerance = None"
| "product_pairs ((a, b) # ps) target tolerance =
     (let product = fmul a b in
      if fle (fabs (fsub product target)) (fmul tolerance target) then Some (a, b)
      else product_pairs ps target tolerance)"

fun product_triplets ::
  "(float64 \<times> float64 \<times> float64) list \<Rightarrow> float64 \<Rightarrow> float64
     \<Rightarrow> (float64 \<times> float64 \<times> float64) option" where
  "product_triplets [] target tolerance = None"
| "product_triplets ((a, b, c) # ts) target tolerance =
     (let product = fmul (fmul a b) c in
      if fle (fabs (fsub product target)) (fmul tolerance target) then Some (a, b, c)
      else product_triplets ts target tolerance)"

definition find_subset_product :: "item list \<Rightarrow> float64 \<Rightarrow> float64 \<Rightarrow> item list option" where
  "find_subset_product data target tolerance =
     (let values = map val (filter (\<lambda>it. val it \<noteq> Fin 0) data) in
      case product_pairs (combinations2 values) target tolerance of
        Some (a, b) \<Rightarrow> reconstruct_items data [a, b]
      | None \<Rightarrow>
         (case product_triplets (combinations3 values) target tolerance of
            Some (a, b, c) \<Rightarrow> reconstruct_items data [a, b, c]
          | None \<Rightarrow> None))"

section \<open>Quotient search\<close>

text \<open>The \<^verbatim>\<open>or\<close> evaluates its second operand only when the first is false; a raise in
  the division or in the closeness test leaves the loop.\<close>

fun quotient_pairs ::
  "(float64 \<times> float64) list \<Rightarrow> float64 \<Rightarrow> float64 \<Rightarrow> error + (float64 \<times> float64) option" where
  "quotient_pairs [] target tolerance = Inr None"
| "quotient_pairs ((a, b) # ps) target tolerance =
     (case truediv a b of Inl e \<Rightarrow> Inl e
      | Inr q1 \<Rightarrow>
         (case isclose q1 target tolerance of Inl e \<Rightarrow> Inl e
          | Inr c1 \<Rightarrow>
             if c1 then Inr (Some (a, b))
             else (case truediv b a of Inl e \<Rightarrow> Inl e
                   | Inr q2 \<Rightarrow>
                      (case isclose q2 target tolerance of Inl e \<Rightarrow> Inl e
                       | Inr c2 \<Rightarrow>
                          if c2 then Inr (Some (a, b))
                          else quotient_pairs ps target tolerance))))"

definition find_subset_quotient :: "item list \<Rightarrow> float64 \<Rightarrow> float64 \<Rightarrow> error + item list option" where
  "find_subset_quotient data0 target tolerance =
     (let data = filter (\<lambda>it. val it \<noteq> Fin 0) data0;
          values = map val data
      in case quotient_pairs (combinations2 values) target tolerance of
           Inl e \<Rightarrow> Inl e
         | Inr (Some (a, b)) \<Rightarrow> Inr (reconstruct_items data [a, b])
         | Inr None \<Rightarrow> Inr None)"

section \<open>Search orchestrator\<close>

text \<open>
  The \<^verbatim>\<open>if\<close>/\<^verbatim>\<open>elif\<close> chain of \<^verbatim>\<open>find_subsets\<close>. With an operation that is none of
  the four names no branch assigns \<^verbatim>\<open>subset\<close>, and reading it raises.
\<close>

definition dispatch :: "string \<Rightarrow> item list \<Rightarrow> float64 \<Rightarrow> float64 \<Rightarrow> error + item list option" where
  "dispatch operation data target tolerance =
     (if operation = ''sum'' then find_subset_sum data target tolerance
      else if operation = ''product'' then Inr (find_subset_product data target tolerance)
      else if operation = ''difference'' then Inr (find_subset_difference data target tolerance)
      else if operation = ''quotient'' then find_subset_quotient data target tolerance
      else Inl UnboundLocalError)"

text \<open>
  \<^verbatim>\<open>if subset:\<close> is false for \<^verbatim>\<open>None\<close> and for the empty list. The progress sink is
  optional and, by its contract, only observes the search; the search is modelled without
  one (\<^verbatim>\<open>progress=None\<close>).
\<close>

fun find_subsets_loop ::
  "item list \<Rightarrow> float64 list \<Rightarrow> string \<Rightarrow> float64 \<Rightarrow> (float64 \<times> item list) list
     \<Rightarrow> error + (float64 \<times> item list) list" where
  "find_subsets_loop data [] operation tolerance results = Inr results"
| "find_subsets_loop data (target # targets) operation tolerance results =
     (case dispatch operation data target tolerance of
        Inl e \<Rightarrow> Inl e
      | Inr found \<Rightarrow>
          find_subsets_loop data targets operation tolerance
            (case found of
               None \<Rightarrow> results
             | Some [] \<Rightarrow> results
             | Some (x # xs) \<Rightarrow> results @ [(target, x # xs)]))"

definition find_subsets ::
  "item list \<Rightarrow> float64 list \<Rightarrow> string \<Rightarrow> float64 \<Rightarrow> error + (float64 \<times> item list) list" where
  "find_subsets data targets operation tolerance =
     find_subsets_loop data targets operation tolerance []"

section \<open>Properties\<close>

subsection \<open>Loops as first-match searches\<close>

lemma find_append_first:
  "List.find P (xs @ ys) = (case List.find P xs of Some r \<Rightarrow> Some r | None \<Rightarrow> List.find P ys)"
  by (induction xs) auto

lemma find_map_comp: "List.find P (map f xs) = map_option f (List.find (\<lambda>x. P (f x)) xs)"
  by (induction xs) auto

lemma find_stronger:
  "List.find Q xs = Some y \<Longrightarrow> R y \<Longrightarrow> (\<And>z. z \<in> set xs \<Longrightarrow> R z \<Longrightarrow> Q z) \<Longrightarrow> List.find R xs = Some y"
  by (induction xs) (auto split: if_splits)

lemma find_SomeD: "List.find P xs = Some x \<Longrightarrow> P x \<and> x \<in> set xs"
  by (induction xs) (auto split: if_splits)


lemma product_pairs_find:
  "product_pairs ps target tolerance =
     List.find (\<lambda>(a, b). fle (fabs (fsub (fmul a b) target)) (fmul tolerance target)) ps"
  by (induction ps target tolerance rule: product_pairs.induct) auto

lemma product_triplets_find:
  "product_triplets ts target tolerance =
     List.find (\<lambda>(a, b, c). fle (fabs (fsub (fmul (fmul a b) c) target)) (fmul tolerance target)) ts"
  by (induction ts target tolerance rule: product_triplets.induct) auto

subsection \<open>Combinations\<close>

lemma combinations2_map: "combinations2 (map f xs) = map (map_prod f f) (combinations2 xs)"
  by (induction xs) auto

lemma combinations3_map:
  "combinations3 (map f xs) = map (\<lambda>(x, y, z). (f x, f y, f z)) (combinations3 xs)"
  by (induction xs) (auto simp: combinations2_map)

lemma combinations2_set: "(x, y) \<in> set (combinations2 xs) \<Longrightarrow> x \<in> set xs \<and> y \<in> set xs"
  by (induction xs) auto


lemma combinations3_pairs:
  "(x, y, z) \<in> set (combinations3 xs) \<Longrightarrow>
     (x, y) \<in> set (combinations2 xs) \<and> (x, z) \<in> set (combinations2 xs)
       \<and> (y, z) \<in> set (combinations2 xs)"
  by (induction xs) (auto dest: combinations2_set)



subsection \<open>Laws of the floating-point operations\<close>

lemma pow2_pos: "0 < pow2 e"
  by (simp add: pow2_def)






lemma fmul_commute: "fmul a b = fmul b a"
  by (cases a; cases b) (simp_all add: mult.commute)

lemma fabs_not_negative: "fle (fabs x) y \<Longrightarrow> \<not> flt y (Fin 0)"
  by (cases x; cases y) auto

lemma rne_nonpos: "y \<le> 0 \<Longrightarrow> rne y \<le> 0"
proof -
  assume y: "y \<le> 0"
  then have f: "\<lfloor>y\<rfloor> \<le> 0" by (simp add: floor_le_zero)
  show ?thesis
  proof (cases "\<lfloor>y\<rfloor> = 0")
    case True
    then have "0 \<le> y" by (metis of_int_0 of_int_floor_le)
    with y have "y = 0" by simp
    then show ?thesis by (simp add: rne_def)
  next
    case False
    with f have "\<lfloor>y\<rfloor> + 1 \<le> 0" by linarith
    with f show ?thesis unfolding rne_def Let_def by (simp del: floor_le_zero)
  qed
qed

lemma round64_negative:
  assumes "x < 0"
  shows "round64 x = NInf \<or> (\<exists>y\<le>0. round64 x = Fin y)"
proof -
  let ?q = "pow2 (exponent \<bar>x\<bar> - 52)"
  have "x / ?q \<le> 0" using assms pow2_pos[of "exponent \<bar>x\<bar> - 52"]
    by (simp add: divide_le_0_iff less_imp_le)
  then have "rne (x / ?q) \<le> 0" by (rule rne_nonpos)
  then have "of_int (rne (x / ?q)) * ?q \<le> 0"
    using pow2_pos[of "exponent \<bar>x\<bar> - 52"] by (simp add: mult_le_0_iff less_imp_le)
  with assms show ?thesis by (auto simp: round64_def Let_def)
qed

lemma fmul_threshold_negative:
  assumes "flt target (Fin 0)" and "flt (Fin 0) tolerance" and "fmul tolerance target \<noteq> Fin 0"
  shows "flt (fmul tolerance target) (Fin 0)"
proof (cases tolerance; cases target)
  fix a b
  assume tt: "tolerance = Fin a" "target = Fin b"
  with assms(1,2) have "a * b < 0" by (simp add: mult_pos_neg)
  from round64_negative[OF this] assms(3) show ?thesis by (auto simp: tt)
qed (use assms in auto)

subsection \<open>Reconstruction\<close>






lemma reconstruct_loop_single:
  "reconstruct_loop xs acc [v] = map_option (\<lambda>z. acc @ [z]) (List.find (\<lambda>z. val z = v) xs)"
  by (induction xs arbitrary: acc) auto

lemma reconstruct_loop_pair:
  assumes sym: "\<And>a b. P a b = P b a"
    and found: "List.find (\<lambda>(x, y). P (val x) (val y)) (combinations2 xs) = Some (x, y)"
  shows "reconstruct_loop xs acc [val x, val y] = Some (acc @ [x, y])"
  using found
proof (induction xs arbitrary: acc)
  case Nil
  then show ?case by simp
next
  case (Cons u xs)
  let ?Q = "\<lambda>(x, y). P (val x) (val y)"
  show ?case
  proof (cases "List.find (\<lambda>z. P (val u) (val z)) xs")
    case (Some z)
    with Cons.prems have xy: "x = u" "y = z"
      by (simp_all add: find_append_first find_map_comp)
    from Some have "P (val u) (val z)" "z \<in> set xs" by (auto dest: find_SomeD)
    have "List.find (\<lambda>w. val w = val z) xs = Some z"
      using Some by (rule find_stronger) (simp_all add: \<open>P (val u) (val z)\<close>)
    then show ?thesis
      by (simp add: xy reconstruct_loop_single)
  next
    case None
    with Cons.prems have rest: "List.find ?Q (combinations2 xs) = Some (x, y)"
      by (simp add: find_append_first find_map_comp)
    then have "P (val x) (val y)" "(x, y) \<in> set (combinations2 xs)"
      by (auto dest: find_SomeD)
    then have mem: "x \<in> set xs" "y \<in> set xs" by (auto dest: combinations2_set)
    from None have no: "\<And>z. z \<in> set xs \<Longrightarrow> \<not> P (val u) (val z)"
      by (simp add: find_None_iff)
    have "val u \<noteq> val x"
      using no[OF mem(2)] \<open>P (val x) (val y)\<close> by auto
    moreover have "val u \<noteq> val y"
      using no[OF mem(1)] \<open>P (val x) (val y)\<close> sym[of "val x" "val y"] by auto
    ultimately show ?thesis using Cons.IH[OF rest] by simp
  qed
qed

lemma reconstruct_loop_nonzero:
  "Fin 0 \<notin> set rem \<Longrightarrow>
     reconstruct_loop (filter (\<lambda>it. val it \<noteq> Fin 0) xs) acc rem = reconstruct_loop xs acc rem"
proof (induction xs arbitrary: acc rem)
  case Nil
  show ?case by simp
next
  case (Cons u xs)
  have "Fin 0 \<notin> set (remove1 (val u) rem)" using Cons.prems by (auto dest: notin_set_remove1)
  with Cons show ?case by (auto simp: Let_def)
qed

subsection \<open>The difference and product searches as searches over items\<close>


lemma reconstruct_items_nonzero:
  "Fin 0 \<notin> set vs \<Longrightarrow>
     reconstruct_items data vs = reconstruct_items (filter (\<lambda>it. val it \<noteq> Fin 0) data) vs"
  by (simp add: reconstruct_items_def reconstruct_loop_nonzero)


lemma find_subset_product_items:
  "find_subset_product data target tolerance =
     (case List.find (\<lambda>(x, y). fle (fabs (fsub (fmul (val x) (val y)) target))
                              (fmul tolerance target))
             (combinations2 (filter (\<lambda>it. val it \<noteq> Fin 0) data)) of
        Some (x, y) \<Rightarrow> Some [x, y]
      | None \<Rightarrow>
         (case List.find (\<lambda>(x, y, z). fle (fabs (fsub (fmul (fmul (val x) (val y)) (val z)) target))
                                    (fmul tolerance target))
                 (combinations3 (filter (\<lambda>it. val it \<noteq> Fin 0) data)) of
            Some (x, y, z) \<Rightarrow> reconstruct_items data [val x, val y, val z]
          | None \<Rightarrow> None))"
proof -
  let ?nz = "filter (\<lambda>it. val it \<noteq> Fin 0) data"
  let ?chk = "\<lambda>p. fle (fabs (fsub p target)) (fmul tolerance target)"
  let ?P2 = "\<lambda>(x, y). ?chk (fmul (val x) (val y))"
  let ?P3 = "\<lambda>(x, y, z). ?chk (fmul (fmul (val x) (val y)) (val z))"
  have pairs: "product_pairs (combinations2 (map val ?nz)) target tolerance
      = map_option (map_prod val val) (List.find ?P2 (combinations2 ?nz))"
    by (simp add: product_pairs_find combinations2_map find_map_comp case_prod_unfold)
  have triplets: "product_triplets (combinations3 (map val ?nz)) target tolerance
      = map_option (\<lambda>(x, y, z). (val x, val y, val z)) (List.find ?P3 (combinations3 ?nz))"
    by (simp add: product_triplets_find combinations3_map find_map_comp case_prod_unfold)
  show ?thesis
  proof (cases "List.find ?P2 (combinations2 ?nz)")
    case (Some p)
    obtain x y where p: "p = (x, y)" by (cases p)
    from Some p have "(x, y) \<in> set (combinations2 ?nz)" by (auto dest: find_SomeD)
    from combinations2_set[OF this] have nz: "Fin 0 \<notin> set [val x, val y]" by auto
    have sym: "\<And>a b. ?chk (fmul a b) = ?chk (fmul b a)" by (simp only: fmul_commute)
    have "reconstruct_loop ?nz [] [val x, val y] = Some ([] @ [x, y])"
      using Some unfolding p
      by (intro reconstruct_loop_pair[where P = "\<lambda>a b. ?chk (fmul a b)"]) (rule sym)
    with reconstruct_items_nonzero[OF nz, of data]
    have "reconstruct_items data [val x, val y] = Some [x, y]"
      by (simp add: reconstruct_items_def)
    with Some p pairs show ?thesis by (simp add: find_subset_product_def)
  next
    case None
    with pairs triplets show ?thesis
      by (cases "List.find ?P3 (combinations3 ?nz)")
        (simp_all add: find_subset_product_def case_prod_unfold)
  qed
qed

subsection \<open>Difference and product: the claims\<close>

lemmas float64_eval = round64_def exponent_def pow2_def rne_def Let_def fsub_def










text \<open>
  Claim C9, as stated, fails: the threshold \<open>tolerance * target\<close> of a negative target and
  a positive tolerance can underflow to zero, and then a pair whose product equals the
  target is accepted. Here the values are \<open>-2\<^sup>-\<^sup>6\<^sup>0\<^sup>0\<close> and \<open>1\<close>, the target is \<open>-2\<^sup>-\<^sup>6\<^sup>0\<^sup>0\<close> and
  the tolerance is \<open>2\<^sup>-\<^sup>6\<^sup>0\<^sup>0\<close>.
\<close>

theorem product_matches_negative_target:
  "flt (Fin (- (1 / 2 ^ 600))) (Fin 0) \<and> flt (Fin 0) (Fin (1 / 2 ^ 600))
   \<and> find_subset_product
       [\<lparr>val = Fin (- (1 / 2 ^ 600)), column = ''A'', row = 2\<rparr>,
        \<lparr>val = Fin 1, column = ''A'', row = 3\<rparr>]
       (Fin (- (1 / 2 ^ 600))) (Fin (1 / 2 ^ 600))
     = Some [\<lparr>val = Fin (- (1 / 2 ^ 600)), column = ''A'', row = 2\<rparr>,
             \<lparr>val = Fin 1, column = ''A'', row = 3\<rparr>]"
  by (simp add: find_subset_product_def reconstruct_items_def float64_eval)

text \<open>
  Claim C9, amended. For every store, every strictly negative target and every strictly
  positive tolerance whose product \<open>tolerance * target\<close>, computed in binary64, is not zero,
  the product search reports no match: the threshold is then negative.
\<close>

theorem find_subset_product_negative_target:
  assumes "flt target (Fin 0)" and "flt (Fin 0) tolerance" and "fmul tolerance target \<noteq> Fin 0"
  shows "find_subset_product data target tolerance = None"
proof -
  from fmul_threshold_negative[OF assms] have neg: "flt (fmul tolerance target) (Fin 0)" .
  have no: "\<not> fle (fabs p) (fmul tolerance target)" for p
    using fabs_not_negative[of p "fmul tolerance target"] neg by blast
  have "List.find (\<lambda>(x, y). fle (fabs (fsub (fmul (val x) (val y)) target))
                              (fmul tolerance target))
          (combinations2 (filter (\<lambda>it. val it \<noteq> Fin 0) data)) = None"
    and "List.find (\<lambda>(x, y, z). fle (fabs (fsub (fmul (fmul (val x) (val y)) (val z)) target))
                                    (fmul tolerance target))
          (combinations3 (filter (\<lambda>it. val it \<noteq> Fin 0) data)) = None"
    by (simp_all add: find_None_iff case_prod_unfold no)
  then show ?thesis by (simp add: find_subset_product_items)
qed

theorem find_subset_product_negative_target_witness:
  "flt (Fin (- 6)) (Fin 0) \<and> flt (Fin 0) (Fin (1 / 2)) \<and> fmul (Fin (1 / 2)) (Fin (- 6)) \<noteq> Fin 0
   \<and> find_subset_product
       [\<lparr>val = Fin 2, column = ''A'', row = 2\<rparr>, \<lparr>val = Fin (- 3), column = ''A'', row = 3\<rparr>]
       (Fin (- 6)) (Fin (1 / 2))
     = None"
proof -
  have a: "flt (Fin (- 6)) (Fin 0)" and b: "flt (Fin 0) (Fin (1 / 2))" by simp_all
  have c: "fmul (Fin (1 / 2)) (Fin (- 6)) \<noteq> Fin 0" by (simp add: float64_eval)
  from find_subset_product_negative_target[OF a b c] a b c show ?thesis by blast
qed

subsection \<open>The subset-sum loops\<close>







subsection \<open>The subset-sum search\<close>










end
